theory Spec2Isabelle
  imports Main "HOL-Library.AList" "HOL-Library.Sublist"
begin

section \<open>Errors\<close>

text \<open>
  The exceptions the module can raise, as values.  \<open>ValueError\<close> and \<open>KeyError\<close> carry the
  message of the \<^verbatim>\<open>raise\<close> statement that built them.  \<open>MissingKey\<close> is the \<^verbatim>\<open>KeyError\<close>
  raised by \<^verbatim>\<open>dict.__getitem__\<close> itself (its argument is the missing key): Python's
  \<^verbatim>\<open>except KeyError\<close> catches both, see \<open>is_KeyError\<close>.  \<open>ReadError\<close> stands for whatever the
  table reader of pandas raises on a file it cannot read or parse.
\<close>

datatype error =
    ValueError string
  | KeyError string
  | MissingKey
  | AttributeError
  | TypeError
  | ReadError string

fun is_KeyError :: "error \<Rightarrow> bool" where
  "is_KeyError (KeyError _) = True"
| "is_KeyError MissingKey = True"
| "is_KeyError _ = False"

text \<open>Sequencing of two steps, the first of which may raise.\<close>

definition and_then :: "error + 'a \<Rightarrow> ('a \<Rightarrow> error + 'b) \<Rightarrow> error + 'b" where
  "and_then m f = (case m of Inl e \<Rightarrow> Inl e | Inr x \<Rightarrow> f x)"

text \<open>
  A list comprehension \<^verbatim>\<open>[f(x) for x in xs]\<close> whose element expression may raise: the
  elements are computed from left to right and the first exception ends the loop.
\<close>

fun collect :: "('a \<Rightarrow> error + 'b) \<Rightarrow> 'a list \<Rightarrow> error + 'b list" where
  "collect f [] = Inr []"
| "collect f (x # xs) =
     and_then (f x) (\<lambda>y. and_then (collect f xs) (\<lambda>ys. Inr (y # ys)))"

section \<open>Values read from a table\<close>

text \<open>
  A table cell is a string or a number; the type of numbers is a parameter.  Looking a
  label up in a row gives the cell, or, when the label occurs several times in the row's
  index, the sub-series of all cells under it.
\<close>

datatype 'v cell = Str string | Num 'v

datatype 'v pyval = Scalar "'v cell" | Series "'v cell list"

section \<open>WellStatistic and WellStatisticList\<close>

text \<open>
  The fields are \<^verbatim>\<open>datatype\<close>, \<^verbatim>\<open>variable\<close> and \<^verbatim>\<open>value\<close> in the source; two of these
  words are reserved here, so all three carry the prefix \<open>ws_\<close>.
\<close>

record 'v WellStatistic =
  ws_datatype :: string
  ws_variable :: string
  ws_value :: "'v pyval"

type_synonym 'v WellStatisticList = "'v WellStatistic list"

text \<open>
  \<^verbatim>\<open>WellStatisticList.search\<close>.  An omitted argument is \<open>None\<close>.  The body is three list
  comprehensions over \<^verbatim>\<open>self\<close> and a \<^verbatim>\<open>raise\<close>; it assigns nothing, so the model is a
  function of the list that returns no new list state.
\<close>

definition search ::
  "'v WellStatisticList \<Rightarrow> string option \<Rightarrow> string option \<Rightarrow> error + 'v WellStatistic list" where
  "search self datatype_arg variable_arg =
     (case datatype_arg of
        Some d \<Rightarrow>
          (case variable_arg of
             Some v \<Rightarrow> Inr [ws. ws \<leftarrow> self, ws_datatype ws = d \<and> ws_variable ws = v]
           | None \<Rightarrow> Inr [ws. ws \<leftarrow> self, ws_datatype ws = d])
      | None \<Rightarrow>
          (case variable_arg of
             Some v \<Rightarrow> Inr [ws. ws \<leftarrow> self, ws_variable ws = v]
           | None \<Rightarrow> Inl (ValueError ''Must provide either datatype or variable or both'')))"

section \<open>Regular expressions\<close>

text \<open>
  The patterns of the module are strings handed to Python's \<^verbatim>\<open>re\<close>.  A pattern is modelled
  by its syntax tree; a string is a list of characters with codes below 256.
\<close>

datatype class_item = Single char | Between char char

datatype regex =
    Chr char
  | Class "class_item list"
  | Dot
  | Cat regex regex
  | Alt regex regex
  | Star regex
  | Plus regex

fun in_item :: "class_item \<Rightarrow> char \<Rightarrow> bool" where
  "in_item (Single a) c = (c = a)"
| "in_item (Between lo hi) c = ((of_char lo :: nat) \<le> of_char c \<and> (of_char c :: nat) \<le> of_char hi)"

text \<open>
  \<open>consume p s\<close> lists what is left of \<open>s\<close> after each way of matching \<open>p\<close> at its start.
  A repetition goes round again only after an iteration that used up input.
\<close>

function consume :: "regex \<Rightarrow> string \<Rightarrow> string list" where
  "consume (Chr a) s = (case s of [] \<Rightarrow> [] | c # cs \<Rightarrow> if c = a then [cs] else [])"
| "consume (Class items) s =
     (case s of [] \<Rightarrow> [] | c # cs \<Rightarrow> if list_ex (\<lambda>i. in_item i c) items then [cs] else [])"
| "consume Dot s = (case s of [] \<Rightarrow> [] | c # cs \<Rightarrow> if c = CHR 0x0A then [] else [cs])"
| "consume (Cat p q) s = concat (map (consume q) (consume p s))"
| "consume (Alt p q) s = consume p s @ consume q s"
| "consume (Star p) s =
     concat (map (\<lambda>r. if length r < length s then consume (Star p) r else []) (consume p s)) @ [s]"
| "consume (Plus p) s =
     concat (map (\<lambda>r. (if length r < length s then consume (Plus p) r else []) @ [r]) (consume p s))"
  by pat_completeness auto
termination
  by (relation "measures [\<lambda>(p, s). size p, \<lambda>(p, s). length s]") auto

text \<open>
  \<^verbatim>\<open>re.match(pattern, string) is not None\<close>: the pattern matches at the start of the string;
  what follows the match is free.  A pattern that is \<^verbatim>\<open>None\<close>, or a subject that is not a
  \<^verbatim>\<open>str\<close>, raises \<^verbatim>\<open>TypeError\<close>.
\<close>

definition matches_at_start :: "regex \<Rightarrow> string \<Rightarrow> bool" where
  "matches_at_start p s = (consume p s \<noteq> [])"

fun re_match :: "regex option \<Rightarrow> 'v pyval \<Rightarrow> error + bool" where
  "re_match (Some p) (Scalar (Str s)) = Inr (matches_at_start p s)"
| "re_match _ _ = Inl TypeError"

text \<open>A run of literal characters in front of the rest of a pattern.\<close>

fun literal :: "string \<Rightarrow> regex \<Rightarrow> regex" where
  "literal [] r = r"
| "literal (c # cs) r = Cat (Chr c) (literal cs r)"

text \<open>The default patterns \<^verbatim>\<open>"[Ss]tandard[0-9]+"\<close> and \<^verbatim>\<open>"[Bb]ackground[0-9]+"\<close>.\<close>

definition standard_pattern_default :: regex where
  "standard_pattern_default =
     Cat (Class [Single CHR ''S'', Single CHR ''s''])
         (literal ''tandard'' (Plus (Class [Between CHR ''0'' CHR ''9''])))"

definition background_pattern_default :: regex where
  "background_pattern_default =
     Cat (Class [Single CHR ''B'', Single CHR ''b''])
         (literal ''ackground'' (Plus (Class [Between CHR ''0'' CHR ''9''])))"

text \<open>
  \<^verbatim>\<open>re.search(r"(\d+).*", location)\<close>: the leftmost place where the pattern matches is the
  first digit of the string, and the greedy group 1 is the whole run of digits that
  starts there.  Without a digit there is no match and the result is \<^verbatim>\<open>None\<close>.  Among
  characters with codes below 256, \<^verbatim>\<open>\d\<close> is \<^verbatim>\<open>0\<close> to \<^verbatim>\<open>9\<close>.
\<close>

definition is_digit :: "char \<Rightarrow> bool" where
  "is_digit c = (c \<in> set ''0123456789'')"

fun re_search_digits :: "string \<Rightarrow> string option" where
  "re_search_digits [] = None"
| "re_search_digits (c # cs) =
     (if is_digit c then Some (takeWhile is_digit (c # cs)) else re_search_digits cs)"

text \<open>
  \<^verbatim>\<open>int(s)\<close> on a string of decimal digits; any other string is answered with
  \<^verbatim>\<open>ValueError\<close> (the group above never yields one).  Integers are unbounded.  Recent
  versions of CPython refuse a digit string longer than a configurable limit (4300 by
  default) with \<^verbatim>\<open>ValueError\<close>; the model has no such limit.
\<close>

definition digit_value :: "char \<Rightarrow> int" where
  "digit_value c = int (of_char c) - 48"

definition py_int :: "string \<Rightarrow> error + int" where
  "py_int s =
     (if s \<noteq> [] \<and> list_all is_digit s
      then Inr (foldl (\<lambda>n c. 10 * n + digit_value c) 0 s)
      else Inl (ValueError ''invalid literal for int() with base 10''))"

section \<open>Well\<close>

text \<open>
  The list of statistics is the field \<^verbatim>\<open>data\<close> of the source; \<open>Plate\<close> and \<open>Reference\<close>
  have a field of that name too, so each is prefixed with its class.
\<close>

record 'v Well =
  location :: "int option"
  location_str :: string
  sample_id :: string
  well_data :: "'v WellStatisticList"
  standard :: bool
  background :: bool

text \<open>
  \<^verbatim>\<open>Well.__init__\<close>.  The \<^verbatim>\<open>try\<close> block evaluates
  \<^verbatim>\<open>int(re.search(...).group(1))\<close>: on \<^verbatim>\<open>None\<close> the attribute \<^verbatim>\<open>group\<close> does not exist and
  \<^verbatim>\<open>AttributeError\<close> is raised; the handler catches \<^verbatim>\<open>IndexError\<close> and \<^verbatim>\<open>ValueError\<close>
  only.  Group 1 exists in every match, so \<^verbatim>\<open>IndexError\<close> does not arise.
\<close>

definition Well_init ::
  "string \<Rightarrow> string \<Rightarrow> 'v WellStatisticList \<Rightarrow> bool \<Rightarrow> bool \<Rightarrow> error + 'v Well" where
  "Well_init loc sid dat std bg =
     (let self = \<lparr>location = None, location_str = loc, sample_id = sid, well_data = dat,
                  standard = std, background = bg\<rparr>
      in case re_search_digits loc of
           None \<Rightarrow> Inl AttributeError
         | Some g \<Rightarrow>
             (case py_int g of
                Inr n \<Rightarrow> Inr (self\<lparr>location := Some n\<rparr>)
              | Inl (ValueError _) \<Rightarrow> Inr (self\<lparr>location := None\<rparr>)
              | Inl e \<Rightarrow> Inl e))"

text \<open>
  A row of a table is a \<^verbatim>\<open>pd.Series\<close>: its index (the column labels) paired with the
  cells.  \<^verbatim>\<open>row[label]\<close> and \<^verbatim>\<open>row.label\<close> find the cells under the label; they differ in
  the error for a label that is not in the index.
\<close>

type_synonym 'v row = "(string \<times> 'v cell) list"

definition row_getitem :: "'v row \<Rightarrow> string \<Rightarrow> error + 'v pyval" where
  "row_getitem row label =
     (case [v. (k, v) \<leftarrow> row, k = label] of
        [] \<Rightarrow> Inl MissingKey
      | [v] \<Rightarrow> Inr (Scalar v)
      | vs \<Rightarrow> Inr (Series vs))"

definition row_getattr :: "'v row \<Rightarrow> string \<Rightarrow> error + 'v pyval" where
  "row_getattr row label =
     (case [v. (k, v) \<leftarrow> row, k = label] of
        [] \<Rightarrow> Inl AttributeError
      | [v] \<Rightarrow> Inr (Scalar v)
      | vs \<Rightarrow> Inr (Series vs))"

text \<open>
  \<^verbatim>\<open>Well.from_series\<close>.  The arguments of \<^verbatim>\<open>cls(...)\<close> are evaluated in the order written,
  then \<^verbatim>\<open>__init__\<close> runs; there \<^verbatim>\<open>re.search\<close> raises \<^verbatim>\<open>TypeError\<close> on a location that is
  not a \<^verbatim>\<open>str\<close>.  A sample that \<^verbatim>\<open>re.match\<close> accepted is a \<^verbatim>\<open>str\<close>.
\<close>

definition statistics_of :: "'v row \<Rightarrow> string \<Rightarrow> error + 'v WellStatisticList" where
  "statistics_of row dt =
     (let variables = [i. i \<leftarrow> map fst row, i \<notin> set [''Location'', ''Sample'']]
      in collect (\<lambda>var. and_then (row_getitem row var) (\<lambda>x.
                    Inr \<lparr>ws_datatype = dt, ws_variable = var, ws_value = x\<rparr>))
                 variables)"

definition Well_from_series ::
  "'v row \<Rightarrow> string \<Rightarrow> regex option \<Rightarrow> regex option \<Rightarrow> error + 'v Well" where
  "Well_from_series row dt standard_pattern background_pattern =
     and_then (statistics_of row dt) (\<lambda>dat.
     and_then (row_getattr row ''Location'') (\<lambda>loc.
     and_then (row_getattr row ''Sample'') (\<lambda>smp.
     and_then (re_match standard_pattern smp) (\<lambda>std.
     and_then (re_match background_pattern smp) (\<lambda>bg.
       case (loc, smp) of
         (Scalar (Str l), Scalar (Str s)) \<Rightarrow> Well_init l s dat std bg
       | _ \<Rightarrow> Inl TypeError)))))"

section \<open>Tables\<close>

text \<open>
  A \<^verbatim>\<open>pd.DataFrame\<close>: the column labels and the rows of cells.  In a table, every row
  has one cell for each column.
\<close>

record 'v DataFrame =
  columns :: "string list"
  rows :: "'v cell list list"

definition rectangular :: "'v DataFrame \<Rightarrow> bool" where
  "rectangular df = list_all (\<lambda>r. length r = length (columns df)) (rows df)"

text \<open>\<^verbatim>\<open>data.iterrows()\<close>: each row as a series indexed by the column labels.\<close>

definition iterrows :: "'v DataFrame \<Rightarrow> 'v row list" where
  "iterrows df = map (zip (columns df)) (rows df)"

text \<open>
  A Python \<^verbatim>\<open>dict\<close> is an association list in insertion order: \<open>AList.update\<close> replaces
  the value of a key that is present, in place, and appends a key that is new.
  \<^verbatim>\<open>data.to_dict("records")\<close> turns each row into such a dictionary from column label to
  cell; under a repeated label the last cell stays.
\<close>

definition to_dict_records :: "'v DataFrame \<Rightarrow> (string \<times> 'v cell) list list" where
  "to_dict_records df =
     map (\<lambda>r. foldl (\<lambda>d (k, v). AList.update k v d) [] (zip (columns df) r)) (rows df)"

section \<open>Plate\<close>

text \<open>
  The module function \<^verbatim>\<open>_plate_from_dataframe\<close> is \<open>plate_from_dataframe\<close>; the methods of
  a class carry the name of the class in front.
\<close>

definition plate_from_dataframe ::
  "'v DataFrame \<Rightarrow> regex option \<Rightarrow> regex option \<Rightarrow> error + 'v Well list" where
  "plate_from_dataframe df standard_pattern background_pattern =
     collect (\<lambda>row. Well_from_series row ''fluorescence intensity''
                       standard_pattern background_pattern)
             (iterrows df)"

record ('v, 'm) Plate =
  plate_data :: "'v Well list"
  filepath :: "string option"
  run_datetime :: "string option"
  batch_id :: "string option"
  meta :: "'m option"

definition Plate_init ::
  "'v Well list \<Rightarrow> string option \<Rightarrow> string option \<Rightarrow> string option \<Rightarrow> 'm option
   \<Rightarrow> ('v, 'm) Plate" where
  "Plate_init dat fp rd bid m =
     \<lparr>plate_data = dat, filepath = fp, run_datetime = rd, batch_id = bid, meta = m\<rparr>"

definition Plate_from_dataframe ::
  "'v DataFrame \<Rightarrow> string option \<Rightarrow> string option \<Rightarrow> 'm option
   \<Rightarrow> regex option \<Rightarrow> regex option \<Rightarrow> error + ('v, 'm) Plate" where
  "Plate_from_dataframe df rd bid m standard_pattern background_pattern =
     and_then (plate_from_dataframe df standard_pattern background_pattern) (\<lambda>wells.
       Inr (Plate_init wells None rd bid m))"

text \<open>
  The file loaders read the table with \<^verbatim>\<open>pd.read_csv\<close> and \<^verbatim>\<open>pd.read_excel\<close>.  What a
  path holds is outside the program, so the reader is the first argument of the model;
  its errors pass through unchanged.  \<open>kwargs\<close> are the options handed on to
  \<^verbatim>\<open>pd.read_excel\<close>.
\<close>

definition Plate_from_csv ::
  "(string \<Rightarrow> error + 'v DataFrame) \<Rightarrow> string \<Rightarrow> string option \<Rightarrow> string option \<Rightarrow> 'm option
   \<Rightarrow> regex option \<Rightarrow> regex option \<Rightarrow> error + ('v, 'm) Plate" where
  "Plate_from_csv read_csv fp rd bid m standard_pattern background_pattern =
     and_then (read_csv fp) (\<lambda>df.
     and_then (plate_from_dataframe df standard_pattern background_pattern) (\<lambda>wells.
       Inr (Plate_init wells (Some fp) rd bid m)))"

definition Plate_from_excel ::
  "(string \<Rightarrow> 'k \<Rightarrow> error + 'v DataFrame) \<Rightarrow> string \<Rightarrow> string option \<Rightarrow> string option
   \<Rightarrow> 'm option \<Rightarrow> regex option \<Rightarrow> regex option \<Rightarrow> 'k \<Rightarrow> error + ('v, 'm) Plate" where
  "Plate_from_excel read_excel fp rd bid m standard_pattern background_pattern kwargs =
     and_then (read_excel fp kwargs) (\<lambda>df.
     and_then (plate_from_dataframe df standard_pattern background_pattern) (\<lambda>wells.
       Inr (Plate_init wells (Some fp) rd bid m)))"

section \<open>Reference\<close>

text \<open>
  \<^verbatim>\<open>_ref_from_dataframe\<close>, here \<open>ref_from_dataframe\<close>.  The dictionary comprehension
  evaluates the key \<^verbatim>\<open>x['analyte']\<close> of each record and stores the other items of the
  record under it; a key stored twice keeps the later value.  A \<^verbatim>\<open>KeyError\<close> from the
  comprehension is replaced by one with the module's message.
\<close>

fun ref_records ::
  "('v cell \<times> (string \<times> 'v cell) list) list \<Rightarrow> (string \<times> 'v cell) list list
   \<Rightarrow> error + ('v cell \<times> (string \<times> 'v cell) list) list" where
  "ref_records acc [] = Inr acc"
| "ref_records acc (x # xs) =
     (case map_of x ''analyte'' of
        None \<Rightarrow> Inl MissingKey
      | Some a \<Rightarrow> ref_records (AList.update a [(k, v) \<leftarrow> x. k \<noteq> ''analyte''] acc) xs)"

definition analyte_column_message :: string where
  "analyte_column_message =
     ''Dataframe must contain the column '' @ [CHR 0x27] @ ''analyte'' @ [CHR 0x27]"

definition ref_from_dataframe ::
  "'v DataFrame \<Rightarrow> error + ('v cell \<times> (string \<times> 'v cell) list) list" where
  "ref_from_dataframe df =
     (case ref_records [] (to_dict_records df) of
        Inl e \<Rightarrow> if is_KeyError e then Inl (KeyError analyte_column_message) else Inl e
      | Inr d \<Rightarrow> Inr d)"

text \<open>
  The field \<^verbatim>\<open>data\<close> of a \<^verbatim>\<open>Reference\<close> holds either a plain \<^verbatim>\<open>dict\<close> or a
  \<^verbatim>\<open>defaultdict(dict)\<close>, from analyte to a plain dictionary from standard to value.
  Indexing a plain dictionary with a missing key raises \<^verbatim>\<open>KeyError\<close>; indexing a
  \<^verbatim>\<open>defaultdict(dict)\<close> with a missing key stores an empty dictionary under the key and
  returns it.  \<open>getitem\<close> returns the outcome and the dictionary after the access.
\<close>

datatype ('a, 's, 'x) pydict =
    Dict "('a \<times> ('s \<times> 'x) list) list"
  | DefaultDict "('a \<times> ('s \<times> 'x) list) list"

fun entries :: "('a, 's, 'x) pydict \<Rightarrow> ('a \<times> ('s \<times> 'x) list) list" where
  "entries (Dict es) = es"
| "entries (DefaultDict es) = es"

fun with_entries ::
  "('a, 's, 'x) pydict \<Rightarrow> ('a \<times> ('s \<times> 'x) list) list \<Rightarrow> ('a, 's, 'x) pydict" where
  "with_entries (Dict _) es = Dict es"
| "with_entries (DefaultDict _) es = DefaultDict es"

fun getitem ::
  "('a, 's, 'x) pydict \<Rightarrow> 'a \<Rightarrow> (error + ('s \<times> 'x) list) \<times> ('a, 's, 'x) pydict" where
  "getitem (Dict es) k =
     (case map_of es k of Some v \<Rightarrow> (Inr v, Dict es) | None \<Rightarrow> (Inl MissingKey, Dict es))"
| "getitem (DefaultDict es) k =
     (case map_of es k of
        Some v \<Rightarrow> (Inr v, DefaultDict es)
      | None \<Rightarrow> (Inr [], DefaultDict (AList.update k [] es)))"

record ('a, 's, 'x) Reference =
  ref_data :: "('a, 's, 'x) pydict"

text \<open>\<^verbatim>\<open>self.data = data or defaultdict(dict)\<close>: \<^verbatim>\<open>None\<close> and an empty dictionary are false.\<close>

definition Reference_init :: "('a, 's, 'x) pydict option \<Rightarrow> ('a, 's, 'x) Reference" where
  "Reference_init dat =
     (case dat of
        None \<Rightarrow> \<lparr>ref_data = DefaultDict []\<rparr>
      | Some d \<Rightarrow> if entries d = [] then \<lparr>ref_data = DefaultDict []\<rparr> else \<lparr>ref_data = d\<rparr>)"

definition Reference_from_dataframe ::
  "'v DataFrame \<Rightarrow> error + ('v cell, string, 'v cell) Reference" where
  "Reference_from_dataframe df =
     and_then (ref_from_dataframe df) (\<lambda>d. Inr (Reference_init (Some (Dict d))))"

text \<open>
  \<^verbatim>\<open>put\<close>: \<^verbatim>\<open>self.data[analyte]\<close> is fetched with \<open>getitem\<close>, then the value is stored in the
  dictionary fetched.  The result is the outcome and the \<^verbatim>\<open>Reference\<close> after the call.
\<close>

definition Reference_put ::
  "('a, 's, 'x) Reference \<Rightarrow> 'a \<Rightarrow> 's \<Rightarrow> 'x \<Rightarrow> (error + unit) \<times> ('a, 's, 'x) Reference" where
  "Reference_put self analyte std val =
     (case getitem (ref_data self) analyte of
        (Inl e, d) \<Rightarrow> (Inl e, self\<lparr>ref_data := d\<rparr>)
      | (Inr inner, d) \<Rightarrow>
          (Inr (),
           self\<lparr>ref_data :=
                  with_entries d (AList.update analyte (AList.update std val inner) (entries d))\<rparr>))"

text \<open>
  What \<^verbatim>\<open>get\<close> returns: one value, the series of one analyte (standard to value), or the
  series of one standard (analyte to value).
\<close>

datatype ('a, 's, 'x) lookup =
    Value 'x
  | Standards "('s \<times> 'x) list"
  | Analytes "('a \<times> 'x) list"

text \<open>
  \<^verbatim>\<open>{a: self.data[a][standard] for a in self.data.keys()}\<close>: the loop over the keys, with
  the dictionary built so far.
\<close>

fun by_standard ::
  "('a, 's, 'x) pydict \<Rightarrow> ('a \<times> 'x) list \<Rightarrow> 'a list \<Rightarrow> 's
   \<Rightarrow> (error + ('a \<times> 'x) list) \<times> ('a, 's, 'x) pydict" where
  "by_standard d acc [] s = (Inr acc, d)"
| "by_standard d acc (a # as) s =
     (case getitem d a of
        (Inl e, d') \<Rightarrow> (Inl e, d')
      | (Inr inner, d') \<Rightarrow>
          (case map_of inner s of
             None \<Rightarrow> (Inl MissingKey, d')
           | Some v \<Rightarrow> by_standard d' (AList.update a v acc) as s))"

text \<open>The body of the \<^verbatim>\<open>try\<close> block of \<^verbatim>\<open>get\<close>.\<close>

definition get_body ::
  "('a, 's, 'x) pydict \<Rightarrow> 'a option \<Rightarrow> 's option
   \<Rightarrow> (error + ('a, 's, 'x) lookup) \<times> ('a, 's, 'x) pydict" where
  "get_body d analyte std =
     (case analyte of
        Some a \<Rightarrow>
          (case std of
             Some s \<Rightarrow>
               (case getitem d a of
                  (Inl e, d') \<Rightarrow> (Inl e, d')
                | (Inr inner, d') \<Rightarrow>
                    (case map_of inner s of
                       None \<Rightarrow> (Inl MissingKey, d')
                     | Some v \<Rightarrow> (Inr (Value v), d')))
           | None \<Rightarrow>
               (case getitem d a of
                  (Inl e, d') \<Rightarrow> (Inl e, d')
                | (Inr inner, d') \<Rightarrow> (Inr (Standards inner), d')))
      | None \<Rightarrow>
          (case std of
             Some s \<Rightarrow>
               (case by_standard d [] (map fst (entries d)) s of
                  (Inl e, d') \<Rightarrow> (Inl e, d')
                | (Inr series, d') \<Rightarrow> (Inr (Analytes series), d'))
           | None \<Rightarrow> (Inl (ValueError ''Must provide either analyte, standard, or both''), d)))"

text \<open>\<^verbatim>\<open>get\<close>: the body, with \<^verbatim>\<open>except KeyError\<close> replacing the exception.\<close>

definition Reference_get ::
  "('a, 's, 'x) Reference \<Rightarrow> 'a option \<Rightarrow> 's option
   \<Rightarrow> (error + ('a, 's, 'x) lookup) \<times> ('a, 's, 'x) Reference" where
  "Reference_get self analyte std =
     (case get_body (ref_data self) analyte std of
        (Inl e, d) \<Rightarrow>
          (if is_KeyError e then Inl (KeyError ''Invalid analyte/standard, does not exist.'')
           else Inl e,
           self\<lparr>ref_data := d\<rparr>)
      | (Inr r, d) \<Rightarrow> (Inr r, self\<lparr>ref_data := d\<rparr>))"

text \<open>
  \<^verbatim>\<open>dataframe\<close>: \<^verbatim>\<open>pd.DataFrame(self.data).T\<close> has one row for each analyte and one column
  for each standard; a cell is the value stored for the pair, or missing.  The frame is
  given by its row labels and its cells; the method reads \<^verbatim>\<open>self.data\<close> and assigns
  nothing.
\<close>

record ('a, 's, 'x) frame =
  frame_index :: "'a list"
  frame_cell :: "'a \<Rightarrow> 's \<Rightarrow> 'x option"

definition Reference_dataframe ::
  "('a, 's, 'x) Reference \<Rightarrow> ('a, 's, 'x) frame \<times> ('a, 's, 'x) Reference" where
  "Reference_dataframe self =
     (let es = entries (ref_data self)
      in (\<lparr>frame_index = map fst es,
           frame_cell = (\<lambda>a s. case map_of es a of None \<Rightarrow> None | Some inner \<Rightarrow> map_of inner s)\<rparr>,
          self))"

section \<open>Example tables\<close>

text \<open>A plate table with two rows, one of them a standard.\<close>

definition scenario_table :: "int DataFrame" where
  "scenario_table =
     \<lparr>columns = [''Location'', ''Sample'', ''X'', ''Y''],
      rows = [[Str ''A1'', Str ''Standard1'', Num 10, Num 20],
              [Str ''B2'', Str ''Unknown'', Num 5, Num 15]]\<rparr>"

text \<open>A reference table in which the analyte \<^verbatim>\<open>A\<close> has two rows, and a table of headers only.\<close>

definition reference_table :: "int DataFrame" where
  "reference_table =
     \<lparr>columns = [''analyte'', ''S1'', ''S2''],
      rows = [[Str ''A'', Num 1, Num 2], [Str ''B'', Num 3, Num 4], [Str ''A'', Num 5, Num 6]]\<rparr>"

definition header_only_table :: "int DataFrame" where
  "header_only_table = \<lparr>columns = [''S1'', ''S2''], rows = []\<rparr>"

text \<open>The reference that \<open>reference_table\<close> loads to.\<close>

definition loaded_reference :: "(int cell, string, int cell) Reference" where
  "loaded_reference =
     \<lparr>ref_data = Dict [(Str ''A'', [(''S1'', Num 5), (''S2'', Num 6)]),
                       (Str ''B'', [(''S1'', Num 3), (''S2'', Num 4)])]\<rparr>"

section \<open>Properties\<close>

subsection \<open>Auxiliary facts\<close>

lemma comprehension_filter: "[x. x \<leftarrow> xs, P x] = filter P xs"
  by (induction xs) simp_all

lemma and_then_Inr_iff:
  "and_then m f = Inr y \<longleftrightarrow> (\<exists>x. m = Inr x \<and> f x = Inr y)"
  by (cases m) (simp_all add: and_then_def)

lemma and_then_simps [simp]:
  "and_then (Inl e) f = Inl e"
  "and_then (Inr x) f = f x"
  by (simp_all add: and_then_def)

subsection \<open>Searching a list of statistics\<close>

text \<open>
  C7.  Without a datatype and without a variable, \<open>search\<close> raises \<^verbatim>\<open>ValueError\<close>.  With
  a datatype it returns the elements of the list that carry this datatype, in the order
  of the list and with their multiplicity (\<open>filter\<close>); with a datatype and a variable,
  the elements that carry both; with a variable only, the elements that carry the
  variable.  The list itself is an argument that \<open>search\<close> does not return: the source
  never assigns to it.
\<close>

theorem search_filters:
  "search self None None = Inl (ValueError ''Must provide either datatype or variable or both'')
   \<and> search self (Some d) None = Inr (filter (\<lambda>ws. ws_datatype ws = d) self)
   \<and> search self (Some d) (Some v) =
       Inr (filter (\<lambda>ws. ws_datatype ws = d \<and> ws_variable ws = v) self)
   \<and> search self None (Some v) = Inr (filter (\<lambda>ws. ws_variable ws = v) self)"
  by (simp add: search_def comprehension_filter)

subsection \<open>The location of a well\<close>

lemma re_search_digits_None: "re_search_digits s = None \<longleftrightarrow> \<not> list_ex is_digit s"
  by (induction s) simp_all

lemma list_all_takeWhile: "list_all P (takeWhile P xs)"
  by (induction xs) simp_all

lemma re_search_digits_Some:
  assumes "re_search_digits s = Some g"
  shows "g = takeWhile is_digit (dropWhile (\<lambda>c. \<not> is_digit c) s)"
    and "g \<noteq> []" and "list_all is_digit g"
proof -
  show run: "g = takeWhile is_digit (dropWhile (\<lambda>c. \<not> is_digit c) s)"
    using assms by (induction s) (simp_all split: if_splits)
  show "g \<noteq> []"
    using assms by (induction s) (simp_all split: if_splits, blast)
  show "list_all is_digit g"
    unfolding run by (rule list_all_takeWhile)
qed

lemma py_int_digits:
  "g \<noteq> [] \<Longrightarrow> list_all is_digit g \<Longrightarrow>
     py_int g = Inr (foldl (\<lambda>n c. 10 * n + digit_value c) 0 g)"
  unfolding py_int_def by (simp only: simp_thms if_True)

text \<open>
  A location with a digit: the well is built, and its location is the decimal value of
  the first run of digits.
\<close>

lemma Well_init_with_digit:
  assumes "list_ex is_digit loc"
  shows "Well_init loc sid dat std bg =
           Inr \<lparr>location = Some (foldl (\<lambda>n c. 10 * n + digit_value c) 0
                                   (takeWhile is_digit (dropWhile (\<lambda>c. \<not> is_digit c) loc))),
                location_str = loc, sample_id = sid, well_data = dat,
                standard = std, background = bg\<rparr>"
proof -
  from assms obtain g where g: "re_search_digits loc = Some g"
    using re_search_digits_None[of loc] by (cases "re_search_digits loc") auto
  have "py_int g = Inr (foldl (\<lambda>n c. 10 * n + digit_value c) 0 g)"
    by (rule py_int_digits) (rule re_search_digits_Some[OF g])+
  then show ?thesis
    unfolding Well_init_def g re_search_digits_Some(1)[OF g, symmetric] by simp
qed

lemma Well_init_A12:
  "Well_init ''A12'' sid dat std bg =
     Inr \<lparr>location = Some 12, location_str = ''A12'', sample_id = sid, well_data = dat,
          standard = std, background = bg\<rparr>"
  by (simp add: Well_init_def is_digit_def py_int_def digit_value_def)

lemma Well_init_12B:
  "Well_init ''12B'' sid dat std bg =
     Inr \<lparr>location = Some 12, location_str = ''12B'', sample_id = sid, well_data = dat,
          standard = std, background = bg\<rparr>"
  by (simp add: Well_init_def is_digit_def py_int_def digit_value_def)

text \<open>A location without a digit: no well is built, whatever the other arguments.\<close>

lemma Well_init_without_digit:
  "\<not> list_ex is_digit loc \<Longrightarrow> Well_init loc sid dat std bg = Inl AttributeError"
  by (simp add: Well_init_def re_search_digits_None[symmetric])

text \<open>
  C1.  The claim has a well with a null location for every location string without a
  digit.  On the string \<^verbatim>\<open>NoDigits\<close> the constructor raises \<^verbatim>\<open>AttributeError\<close>: the search
  returns \<^verbatim>\<open>None\<close>, \<^verbatim>\<open>None.group\<close> does not exist, and the handler that sets the location
  to \<^verbatim>\<open>None\<close> catches \<^verbatim>\<open>IndexError\<close> and \<^verbatim>\<open>ValueError\<close> only.
\<close>

theorem Well_init_NoDigits:
  "Well_init ''NoDigits'' sid dat std bg = Inl AttributeError"
  by (simp add: Well_init_def is_digit_def)

subsection \<open>The metadata of a plate\<close>

text \<open>
  C10.  A plate loaded from a table in memory has no file path; a plate loaded from a
  delimited-text file or from a spreadsheet has the path it was loaded from; in all
  three the run date, the batch and the free-form metadata are the arguments.
\<close>

theorem Plate_loaders_metadata:
  "(\<forall>p. Plate_from_dataframe df rd bid m sp bp = Inr p \<longrightarrow>
        filepath p = None \<and> run_datetime p = rd \<and> batch_id p = bid \<and> meta p = m)
   \<and> (\<forall>p. Plate_from_csv read_csv fp rd bid m sp bp = Inr p \<longrightarrow>
        filepath p = Some fp \<and> run_datetime p = rd \<and> batch_id p = bid \<and> meta p = m)
   \<and> (\<forall>p. Plate_from_excel read_excel fp rd bid m sp bp kwargs = Inr p \<longrightarrow>
        filepath p = Some fp \<and> run_datetime p = rd \<and> batch_id p = bid \<and> meta p = m)"
  by (auto simp: Plate_from_dataframe_def Plate_from_csv_def Plate_from_excel_def
        Plate_init_def and_then_Inr_iff)

theorem Plate_loaders_metadata_witness:
  "(\<exists>p. Plate_from_dataframe scenario_table (Some ''2021-03-01'') (Some ''batch 7'') (Some True)
          (Some standard_pattern_default) (Some background_pattern_default) = Inr p
        \<and> filepath p = None \<and> run_datetime p = Some ''2021-03-01''
        \<and> batch_id p = Some ''batch 7'' \<and> meta p = Some True)
   \<and> (\<exists>p. Plate_from_csv (\<lambda>path. Inr scenario_table) ''plate.csv'' (Some ''2021-03-01'') (Some ''batch 7'') (Some True)
          (Some standard_pattern_default) (Some background_pattern_default) = Inr p
        \<and> filepath p = Some ''plate.csv'' \<and> run_datetime p = Some ''2021-03-01''
        \<and> batch_id p = Some ''batch 7'' \<and> meta p = Some True)
   \<and> (\<exists>p. Plate_from_excel (\<lambda>path sheet. Inr scenario_table) ''plate.xlsx'' (Some ''2021-03-01'') (Some ''batch 7'') (Some True)
          (Some standard_pattern_default) (Some background_pattern_default) ''Sheet1'' = Inr p
        \<and> filepath p = Some ''plate.xlsx'' \<and> run_datetime p = Some ''2021-03-01''
        \<and> batch_id p = Some ''batch 7'' \<and> meta p = Some True)"
proof -
  let ?sp = "Some standard_pattern_default" and ?bp = "Some background_pattern_default"
  let ?a = "Plate_from_dataframe scenario_table (Some ''2021-03-01'') (Some ''batch 7'')
              (Some True) ?sp ?bp"
  let ?b = "Plate_from_csv (\<lambda>path. Inr scenario_table) ''plate.csv'' (Some ''2021-03-01'') (Some ''batch 7'') (Some True) ?sp ?bp"
  let ?c = "Plate_from_excel (\<lambda>path sheet. Inr scenario_table) ''plate.xlsx''
              (Some ''2021-03-01'') (Some ''batch 7'') (Some True) ?sp ?bp ''Sheet1''"
  have "\<not> isl ?a" and "\<not> isl ?b" and "\<not> isl ?c"
    by code_simp+
  then obtain p q r where p: "?a = Inr p" and q: "?b = Inr q" and r: "?c = Inr r"
    by (metis sum.collapse(2))
  note csv = Plate_loaders_metadata[where df = scenario_table and rd = "Some ''2021-03-01''"
        and bid = "Some ''batch 7''" and m = "Some True" and sp = ?sp and bp = ?bp
        and read_csv = "\<lambda>path. Inr scenario_table" and fp = "''plate.csv''"
        and read_excel = "\<lambda>path sheet. Inr scenario_table" and kwargs = "''Sheet1''"]
  note excel = Plate_loaders_metadata[where df = scenario_table and rd = "Some ''2021-03-01''"
        and bid = "Some ''batch 7''" and m = "Some True" and sp = ?sp and bp = ?bp
        and read_csv = "\<lambda>path. Inr scenario_table" and fp = "''plate.xlsx''"
        and read_excel = "\<lambda>path sheet. Inr scenario_table" and kwargs = "''Sheet1''"]
  have "filepath p = None \<and> run_datetime p = Some ''2021-03-01''
          \<and> batch_id p = Some ''batch 7'' \<and> meta p = Some True"
    using csv p by blast
  moreover have "filepath q = Some ''plate.csv'' \<and> run_datetime q = Some ''2021-03-01''
          \<and> batch_id q = Some ''batch 7'' \<and> meta q = Some True"
    using csv q by blast
  moreover have "filepath r = Some ''plate.xlsx'' \<and> run_datetime r = Some ''2021-03-01''
          \<and> batch_id r = Some ''batch 7'' \<and> meta r = Some True"
    using excel r by blast
  ultimately show ?thesis
    using p q r by blast
qed

subsection \<open>Loading a reference\<close>

lemma find_append:
  "find P (xs @ ys) = (case find P xs of None \<Rightarrow> find P ys | Some x \<Rightarrow> Some x)"
  by (induction xs) simp_all

lemma keys_of_record:
  "fst ` set (foldl (\<lambda>d (k, v). AList.update k v d) acc kvs) = fst ` set acc \<union> fst ` set kvs"
  by (induction kvs arbitrary: acc) (simp_all add: dom_update case_prod_beta)

lemma record_has_column:
  assumes "length r = length cols"
  shows "map_of (foldl (\<lambda>d (k, v). AList.update k v d) [] (zip cols r)) c = None
           \<longleftrightarrow> c \<notin> set cols"
proof -
  have "fst ` set (zip cols r) = set cols"
    using assms by (metis map_fst_zip set_map)
  then show ?thesis
    by (simp add: map_of_eq_None_iff keys_of_record)
qed

lemma records_have_analyte:
  assumes "rectangular df" and "''analyte'' \<in> set (columns df)"
  shows "\<forall>x\<in>set (to_dict_records df). map_of x ''analyte'' \<noteq> None"
proof
  fix x assume "x \<in> set (to_dict_records df)"
  then obtain r where "r \<in> set (rows df)"
    and x: "x = foldl (\<lambda>d (k, v). AList.update k v d) [] (zip (columns df) r)"
    by (auto simp: to_dict_records_def)
  with assms(1) have "length r = length (columns df)"
    by (simp add: rectangular_def list_all_iff)
  from record_has_column[OF this, of "''analyte''"] assms(2)
  show "map_of x ''analyte'' \<noteq> None"
    unfolding x by blast
qed

lemma records_lack_analyte:
  assumes "rectangular df" and "''analyte'' \<notin> set (columns df)"
  shows "\<forall>x\<in>set (to_dict_records df). map_of x ''analyte'' = None"
  using assms
  by (auto simp: rectangular_def to_dict_records_def list_all_iff record_has_column)

lemma ref_records_last:
  assumes "\<forall>x\<in>set recs. map_of x ''analyte'' \<noteq> None"
  shows "\<exists>d. ref_records acc recs = Inr d \<and>
           (\<forall>a. map_of d a =
              (case find (\<lambda>x. map_of x ''analyte'' = Some a) (rev recs) of
                 None \<Rightarrow> map_of acc a
               | Some x \<Rightarrow> Some [(k, v) \<leftarrow> x. k \<noteq> ''analyte'']))"
  using assms
proof (induction recs arbitrary: acc)
  case Nil
  then show ?case by simp
next
  case (Cons x recs)
  then obtain a0 where a0: "map_of x ''analyte'' = Some a0" by auto
  let ?acc = "AList.update a0 [(k, v) \<leftarrow> x. k \<noteq> ''analyte''] acc"
  from Cons.IH[of ?acc] Cons.prems obtain d where
    d: "ref_records ?acc recs = Inr d" and
    look: "\<And>a. map_of d a =
              (case find (\<lambda>x. map_of x ''analyte'' = Some a) (rev recs) of
                 None \<Rightarrow> map_of ?acc a
               | Some x \<Rightarrow> Some [(k, v) \<leftarrow> x. k \<noteq> ''analyte''])"
    by auto
  have "ref_records acc (x # recs) = Inr d"
    by (simp add: a0 d)
  moreover have "map_of d a =
              (case find (\<lambda>x. map_of x ''analyte'' = Some a) (rev (x # recs)) of
                 None \<Rightarrow> map_of acc a
               | Some x \<Rightarrow> Some [(k, v) \<leftarrow> x. k \<noteq> ''analyte''])" for a
    by (simp add: look find_append a0 update_conv' split: option.splits)
  ultimately show ?case by blast
qed

lemma ref_records_missing:
  "recs \<noteq> [] \<Longrightarrow> \<forall>x\<in>set recs. map_of x ''analyte'' = None \<Longrightarrow> ref_records acc recs = Inl MissingKey"
  by (cases recs) simp_all

text \<open>
  C9.  A table whose rows all have one cell for each column, one of the columns being
  \<^verbatim>\<open>analyte\<close>, loads without error, whether or not an analyte occurs in several rows; and
  under each analyte the reference holds the other columns of the last row that carries
  this analyte (nothing under a value that no row carries).
\<close>

theorem Reference_from_dataframe_last_row_wins:
  assumes "rectangular df" and "''analyte'' \<in> set (columns df)"
  shows "\<exists>r. Reference_from_dataframe df = Inr r \<and>
           (\<forall>a. map_of (entries (ref_data r)) a =
              (case find (\<lambda>x. map_of x ''analyte'' = Some a) (rev (to_dict_records df)) of
                 None \<Rightarrow> None
               | Some x \<Rightarrow> Some [(k, v) \<leftarrow> x. k \<noteq> ''analyte'']))"
proof -
  from ref_records_last[OF records_have_analyte[OF assms], of "[]"]
  have "\<exists>d. ref_records [] (to_dict_records df) = Inr d \<and>
           (\<forall>a. map_of d a =
              (case find (\<lambda>x. map_of x ''analyte'' = Some a) (rev (to_dict_records df)) of
                 None \<Rightarrow> None
               | Some x \<Rightarrow> Some [(k, v) \<leftarrow> x. k \<noteq> ''analyte'']))"
    by (simp cong: option.case_cong)
  then obtain d where d: "ref_records [] (to_dict_records df) = Inr d"
    and look: "\<And>a. map_of d a =
              (case find (\<lambda>x. map_of x ''analyte'' = Some a) (rev (to_dict_records df)) of
                 None \<Rightarrow> None
               | Some x \<Rightarrow> Some [(k, v) \<leftarrow> x. k \<noteq> ''analyte''])"
    by blast
  have "entries (ref_data (Reference_init (Some (Dict d)))) = d"
    by (simp add: Reference_init_def)
  moreover have "Reference_from_dataframe df = Inr (Reference_init (Some (Dict d)))"
    by (simp add: Reference_from_dataframe_def ref_from_dataframe_def d)
  ultimately show ?thesis
    using look by auto
qed

theorem Reference_from_dataframe_last_row_wins_witness:
  "rectangular reference_table \<and> ''analyte'' \<in> set (columns reference_table)
   \<and> (\<exists>r. Reference_from_dataframe reference_table = Inr r
          \<and> map_of (entries (ref_data r)) (Str ''A'') = Some [(''S1'', Num 5), (''S2'', Num 6)]
          \<and> map_of (entries (ref_data r)) (Str ''B'') = Some [(''S1'', Num 3), (''S2'', Num 4)]
          \<and> map_of (entries (ref_data r)) (Str ''C'') = None)"
proof -
  have h: "rectangular reference_table" "''analyte'' \<in> set (columns reference_table)"
    by (simp_all add: rectangular_def reference_table_def)
  have recs: "to_dict_records reference_table =
      [[(''analyte'', Str ''A''), (''S1'', Num 1), (''S2'', Num 2)],
       [(''analyte'', Str ''B''), (''S1'', Num 3), (''S2'', Num 4)],
       [(''analyte'', Str ''A''), (''S1'', Num 5), (''S2'', Num 6)]]"
    by (simp add: to_dict_records_def reference_table_def)
  from Reference_from_dataframe_last_row_wins[OF h] show ?thesis
    unfolding recs using h by auto
qed

text \<open>
  A table without the column \<^verbatim>\<open>analyte\<close> that has a row is refused with the module's
  message.
\<close>

lemma Reference_from_dataframe_no_analyte:
  assumes "rectangular df" and "''analyte'' \<notin> set (columns df)" and "rows df \<noteq> []"
  shows "Reference_from_dataframe df = Inl (KeyError analyte_column_message)"
proof -
  have "to_dict_records df \<noteq> []"
    using assms(3) by (simp add: to_dict_records_def)
  then have "ref_records [] (to_dict_records df) = Inl MissingKey"
    using records_lack_analyte[OF assms(1,2)] by (rule ref_records_missing)
  then show ?thesis
    by (simp add: Reference_from_dataframe_def ref_from_dataframe_def)
qed

text \<open>
  C8.  The claim has every table without the column \<^verbatim>\<open>analyte\<close> refused.  A table
  that has headers and no row is loaded: the comprehension runs over no record, so
  \<^verbatim>\<open>x['analyte']\<close> is never evaluated and nothing raises; the result is the empty
  reference.
\<close>

theorem Reference_from_dataframe_header_only:
  "''analyte'' \<notin> set (columns header_only_table)
   \<and> Reference_from_dataframe header_only_table = Inr \<lparr>ref_data = DefaultDict []\<rparr>"
  by (simp add: Reference_from_dataframe_def ref_from_dataframe_def to_dict_records_def
        header_only_table_def Reference_init_def)

subsection \<open>Reading and writing a reference\<close>

lemma getitem_present:
  assumes "k \<in> fst ` set (entries d)"
  shows "\<exists>inner. getitem d k = (Inr inner, d) \<and> map_of (entries d) k = Some inner"
proof -
  from assms obtain inner where "map_of (entries d) k = Some inner"
    by (metis map_of_eq_None_iff not_None_eq)
  then show ?thesis by (cases d) simp_all
qed

lemma getitem_Dict_absent:
  "k \<notin> fst ` set es \<Longrightarrow> getitem (Dict es) k = (Inl MissingKey, Dict es)"
  by (simp add: map_of_eq_None_iff[symmetric])

lemma getitem_Dict_unchanged: "snd (getitem (Dict es) k) = Dict es"
  by (simp split: option.splits)

lemma by_standard_present:
  "set ks \<subseteq> fst ` set (entries d) \<Longrightarrow> snd (by_standard d acc ks s) = d"
proof (induction ks arbitrary: acc)
  case Nil
  then show ?case by simp
next
  case (Cons k ks)
  then obtain inner where "getitem d k = (Inr inner, d)"
    using getitem_present[of k d] by auto
  with Cons show ?case
    by (simp split: option.splits)
qed

lemma get_body_unchanged:
  assumes "\<And>a. analyte = Some a \<Longrightarrow> a \<in> fst ` set (entries d) \<or> (\<exists>es. d = Dict es)"
  shows "snd (get_body d analyte std) = d"
proof (cases analyte)
  case None
  show ?thesis
  proof (cases std)
    case None
    with \<open>analyte = None\<close> show ?thesis by (simp add: get_body_def)
  next
    case (Some s)
    have "snd (by_standard d [] (map fst (entries d)) s) = d"
      by (rule by_standard_present) simp
    then obtain res where "by_standard d [] (map fst (entries d)) s = (res, d)"
      by (metis prod.collapse)
    with Some \<open>analyte = None\<close> show ?thesis
      by (simp add: get_body_def split: sum.splits)
  qed
next
  case (Some a)
  from assms[OF Some] show ?thesis
  proof
    assume "a \<in> fst ` set (entries d)"
    from getitem_present[OF this] show ?thesis
      by (auto simp: get_body_def Some split: option.splits)
  next
    assume "\<exists>es. d = Dict es"
    then obtain es where "d = Dict es" ..
    then show ?thesis
      by (simp add: get_body_def Some split: option.splits)
  qed
qed

text \<open>
  A call of \<^verbatim>\<open>get\<close> leaves the data as it was whenever the data is a plain dictionary,
  and whenever the analyte asked for (if any) is a key.
\<close>

lemma Reference_get_unchanged:
  assumes "\<And>a. analyte = Some a \<Longrightarrow>
             a \<in> fst ` set (entries (ref_data r)) \<or> (\<exists>es. ref_data r = Dict es)"
  shows "snd (Reference_get r analyte std) = r"
proof -
  have "snd (get_body (ref_data r) analyte std) = ref_data r"
    by (rule get_body_unchanged) (rule assms)
  then obtain res where "get_body (ref_data r) analyte std = (res, ref_data r)"
    by (metis prod.collapse)
  then show ?thesis
    by (simp add: Reference_get_def split: sum.splits)
qed

text \<open>On a plain dictionary an analyte that is not a key gives the module's error.\<close>

lemma Reference_get_plain_absent:
  assumes "ref_data r = Dict es" and "a \<notin> fst ` set es"
  shows "fst (Reference_get r (Some a) std) =
           Inl (KeyError ''Invalid analyte/standard, does not exist.'')"
proof -
  have "map_of es a = None"
    using assms(2) by (simp add: map_of_eq_None_iff)
  with assms(1) show ?thesis
    by (cases std) (simp_all add: Reference_get_def get_body_def)
qed

text \<open>On any dictionary a standard that the analyte does not have gives the module's error.\<close>

lemma Reference_get_absent_standard:
  assumes "map_of (entries (ref_data r)) a = Some inner" and "map_of inner s = None"
  shows "fst (Reference_get r (Some a) (Some s)) =
           Inl (KeyError ''Invalid analyte/standard, does not exist.'')"
  using assms
  by (cases "ref_data r") (simp_all add: Reference_get_def get_body_def)

lemma by_standard_missing:
  assumes "map_of (entries d) a = Some inner" and "map_of inner s = None"
    and "a \<in> set ks" and "set ks \<subseteq> fst ` set (entries d)"
  shows "by_standard d acc ks s = (Inl MissingKey, d)"
  using assms(3,4)
proof (induction ks arbitrary: acc)
  case Nil
  then show ?case by simp
next
  case (Cons k ks)
  then obtain inner' where k: "getitem d k = (Inr inner', d)"
    and k': "map_of (entries d) k = Some inner'"
    using getitem_present[of k d] by auto
  show ?case
  proof (cases "map_of inner' s")
    case None
    then show ?thesis by (simp add: k)
  next
    case (Some v)
    with k' assms(1,2) have "k \<noteq> a" by auto
    with Cons.prems have "a \<in> set ks" "set ks \<subseteq> fst ` set (entries d)" by auto
    from Cons.IH[OF this] Some show ?thesis by (simp add: k)
  qed
qed

text \<open>
  Asking for one standard over all analytes gives the module's error as soon as one
  analyte does not have the standard.
\<close>

lemma Reference_get_standard_missing:
  assumes "map_of (entries (ref_data r)) a = Some inner" and "map_of inner s = None"
  shows "Reference_get r None (Some s) =
           (Inl (KeyError ''Invalid analyte/standard, does not exist.''), r)"
proof -
  from assms(1) have "a \<in> set (map fst (entries (ref_data r)))"
    by (metis map_of_eq_None_iff option.distinct(1) set_map)
  from by_standard_missing[OF assms this, of "[]"]
  have "by_standard (ref_data r) [] (map fst (entries (ref_data r))) s = (Inl MissingKey, ref_data r)"
    by simp
  then show ?thesis
    by (simp add: Reference_get_def get_body_def)
qed

lemma Reference_get_neither:
  "Reference_get r None None =
     (Inl (ValueError ''Must provide either analyte, standard, or both''), r)"
  by (simp add: Reference_get_def get_body_def)

lemma Reference_dataframe_unchanged: "snd (Reference_dataframe r) = r"
  by (simp add: Reference_dataframe_def Let_def)

text \<open>
  \<^verbatim>\<open>put\<close> stores the value, and \<^verbatim>\<open>get\<close> then returns it, when the data is a
  \<^verbatim>\<open>defaultdict\<close> or the analyte is a key already.
\<close>

lemma Reference_put_then_get:
  assumes "(\<exists>es. ref_data r = DefaultDict es) \<or> a \<in> fst ` set (entries (ref_data r))"
  shows "\<exists>r'. Reference_put r a s v = (Inr (), r') \<and>
              Reference_get r' (Some a) (Some s) = (Inr (Value v), r')"
proof -
  have "\<exists>inner d. getitem (ref_data r) a = (Inr inner, d)"
  proof (cases "a \<in> fst ` set (entries (ref_data r))")
    case True
    from getitem_present[OF this] show ?thesis by blast
  next
    case False
    with assms obtain es where "ref_data r = DefaultDict es" by blast
    then show ?thesis by (cases "map_of es a") simp_all
  qed
  then obtain inner d where g: "getitem (ref_data r) a = (Inr inner, d)"
    by blast
  let ?es = "AList.update a (AList.update s v inner) (entries d)"
  let ?r = "r\<lparr>ref_data := with_entries d ?es\<rparr>"
  have put: "Reference_put r a s v = (Inr (), ?r)"
    by (simp add: Reference_put_def g)
  have "map_of ?es a = Some (AList.update s v inner)"
    by (simp add: update_conv')
  then have "getitem (with_entries d ?es) a = (Inr (AList.update s v inner), with_entries d ?es)"
    by (cases d) simp_all
  then have "Reference_get ?r (Some a) (Some s) = (Inr (Value v), ?r)"
    by (simp add: Reference_get_def get_body_def update_conv')
  with put show ?thesis by blast
qed

text \<open>
  C2.  The claim has every lookup of an absent analyte fail with the module's
  \<^verbatim>\<open>KeyError\<close>.  On a reference built without data, \<^verbatim>\<open>self.data\<close> is a
  \<^verbatim>\<open>defaultdict(dict)\<close>; \<^verbatim>\<open>get(analyte=a)\<close> indexes it with the absent analyte, which
  raises nothing, and returns the empty series.
\<close>

theorem Reference_get_absent_analyte:
  "fst (Reference_get (Reference_init None) (Some a) None) = Inr (Standards [])"
  by (simp add: Reference_get_def Reference_init_def get_body_def)

text \<open>
  C3.  The claim has \<^verbatim>\<open>get\<close> leave the data unchanged on every reference.  On a
  reference built without data, the data is empty before \<^verbatim>\<open>get(analyte=a)\<close> and holds
  the analyte \<open>a\<close> with an empty dictionary after it; \<^verbatim>\<open>get(analyte=a, standard=s)\<close>
  raises the module's \<^verbatim>\<open>KeyError\<close> and leaves the same new entry behind.
\<close>

theorem Reference_get_inserts:
  "entries (ref_data (Reference_init None)) = []
   \<and> entries (ref_data (snd (Reference_get (Reference_init None) (Some a) None))) = [(a, [])]
   \<and> Reference_get (Reference_init None) (Some a) (Some s) =
       (Inl (KeyError ''Invalid analyte/standard, does not exist.''),
        \<lparr>ref_data = DefaultDict [(a, [])]\<rparr>)"
  by (simp add: Reference_get_def Reference_init_def get_body_def)

text \<open>
  C4.  The claim has \<^verbatim>\<open>put\<close> create the entry of an absent analyte on every reference.
  The reference loaded from \<open>reference_table\<close> holds a plain dictionary with the
  analytes \<^verbatim>\<open>A\<close> and \<^verbatim>\<open>B\<close>; \<^verbatim>\<open>put("C", "S1", 35)\<close> on it raises the \<^verbatim>\<open>KeyError\<close> of the
  dictionary and stores nothing, and \<^verbatim>\<open>get("C", "S1")\<close> afterwards fails.
\<close>

theorem Reference_put_absent_analyte:
  "Reference_from_dataframe reference_table = Inr loaded_reference
   \<and> Reference_put loaded_reference (Str ''C'') ''S1'' (Num 35) = (Inl MissingKey, loaded_reference)
   \<and> fst (Reference_get loaded_reference (Some (Str ''C'')) (Some ''S1'')) =
       Inl (KeyError ''Invalid analyte/standard, does not exist.'')"
  by (simp add: Reference_from_dataframe_def ref_from_dataframe_def to_dict_records_def
        reference_table_def loaded_reference_def Reference_init_def Reference_put_def
        Reference_get_def get_body_def)

subsection \<open>Patterns and the flags of a well\<close>

text \<open>The class \<^verbatim>\<open>[0-9]\<close> holds the ten digits.\<close>

lemma digit_range: "in_item (Between CHR ''0'' CHR ''9'') c = is_digit c"
proof -
  define n where "n = (of_char c :: nat)"
  have "(48 \<le> n \<and> n \<le> 57) =
          (n = 48 \<or> n = 49 \<or> n = 50 \<or> n = 51 \<or> n = 52 \<or> n = 53 \<or> n = 54 \<or> n = 55 \<or> n = 56 \<or> n = 57)"
    by arith
  moreover have "is_digit c =
          (n = 48 \<or> n = 49 \<or> n = 50 \<or> n = 51 \<or> n = 52 \<or> n = 53 \<or> n = 54 \<or> n = 55 \<or> n = 56 \<or> n = 57)"
    unfolding is_digit_def n_def by (cases c) auto
  ultimately show ?thesis
    by (simp add: n_def)
qed

lemma consume_literal:
  "consume (literal l r) s = (if prefix l s then consume r (drop (length l) s) else [])"
proof (induction l arbitrary: s)
  case Nil
  then show ?case by simp
next
  case (Cons a l)
  show ?case
  proof (cases s)
    case Nil
    then show ?thesis by simp
  next
    case (Cons c cs)
    then show ?thesis
      using Cons.IH[of cs] by simp
  qed
qed

lemma consume_Plus_empty: "consume (Plus p) s = [] \<longleftrightarrow> consume p s = []"
  by (simp add: concat_eq_Nil_conv) 

lemma consume_digits:
  "consume (Plus (Class [Between CHR ''0'' CHR ''9''])) s \<noteq> [] \<longleftrightarrow>
     (\<exists>c cs. s = c # cs \<and> is_digit c)"
proof -
  have "consume (Plus (Class [Between CHR ''0'' CHR ''9''])) s \<noteq> [] \<longleftrightarrow>
          consume (Class [Between CHR ''0'' CHR ''9'']) s \<noteq> []"
    by (simp only: consume_Plus_empty)
  also have "\<dots> \<longleftrightarrow> (\<exists>c cs. s = c # cs \<and> is_digit c)"
    by (cases s) (simp_all add: digit_range del: in_item.simps)
  finally show ?thesis .
qed

lemma label_pattern:
  "matches_at_start
     (Cat (Class [Single a, Single b]) (literal l (Plus (Class [Between CHR ''0'' CHR ''9''])))) s
   \<longleftrightarrow> (\<exists>c ds rest. s = c # l @ ds @ rest \<and> (c = a \<or> c = b) \<and> ds \<noteq> [] \<and> list_all is_digit ds)"
  (is "?lhs \<longleftrightarrow> ?rhs")
proof
  assume ?lhs
  then obtain c cs where s: "s = c # cs" and c: "c = a \<or> c = b"
    and rest: "consume (literal l (Plus (Class [Between CHR ''0'' CHR ''9'']))) cs \<noteq> []"
    by (cases s) (auto simp: matches_at_start_def split: if_splits)
  from rest have pre: "prefix l cs"
    and "consume (Plus (Class [Between CHR ''0'' CHR ''9''])) (drop (length l) cs) \<noteq> []"
    by (simp_all add: consume_literal del: consume.simps split: if_splits)
  then obtain d ds where d: "drop (length l) cs = d # ds" and "is_digit d"
    unfolding consume_digits by blast
  from pre d have "cs = l @ [d] @ ds"
    by (metis append_Cons append_Nil append_eq_conv_conj prefix_def)
  with s c \<open>is_digit d\<close> show ?rhs
    by (intro exI[of _ c] exI[of _ "[d]"] exI[of _ ds]) simp
next
  assume ?rhs
  then obtain c ds rest where s: "s = c # l @ ds @ rest" and c: "c = a \<or> c = b"
    and ds: "ds \<noteq> []" "list_all is_digit ds"
    by blast
  from ds obtain d ds' where "ds = d # ds'" "is_digit d"
    by (cases ds) auto
  then have "consume (Plus (Class [Between CHR ''0'' CHR ''9''])) (ds @ rest) \<noteq> []"
    unfolding consume_digits by simp
  then have "consume (literal l (Plus (Class [Between CHR ''0'' CHR ''9'']))) (l @ ds @ rest) \<noteq> []"
    by (simp add: consume_literal del: consume.simps)
  with s c show ?lhs
    by (auto simp: matches_at_start_def simp del: consume.simps(7))
qed


lemma Well_init_fields:
  assumes "Well_init l s dat std bg = Inr w"
  shows "location_str w = l \<and> sample_id w = s \<and> well_data w = dat
         \<and> standard w = std \<and> background w = bg"
  using assms
  by (auto simp: Well_init_def Let_def split: option.splits sum.splits error.splits)

lemma re_match_Inr:
  "re_match pat x = Inr b \<Longrightarrow> \<exists>p s. pat = Some p \<and> x = Scalar (Str s) \<and> b = matches_at_start p s"
  by (cases "(pat, x)" rule: re_match.cases) simp_all

text \<open>What a well built from a row holds, read off the row and the patterns.\<close>

lemma Well_from_series_Inr:
  assumes "Well_from_series row dt sp bp = Inr w"
  shows "\<exists>p q. sp = Some p \<and> bp = Some q
           \<and> row_getattr row ''Location'' = Inr (Scalar (Str (location_str w)))
           \<and> row_getattr row ''Sample'' = Inr (Scalar (Str (sample_id w)))
           \<and> statistics_of row dt = Inr (well_data w)
           \<and> standard w = matches_at_start p (sample_id w)
           \<and> background w = matches_at_start q (sample_id w)"
proof -
  from assms obtain dat loc smp std bg where
    dat: "statistics_of row dt = Inr dat" and
    loc: "row_getattr row ''Location'' = Inr loc" and
    smp: "row_getattr row ''Sample'' = Inr smp" and
    std: "re_match sp smp = Inr std" and
    bg: "re_match bp smp = Inr bg" and
    fin: "(case (loc, smp) of
            (Scalar (Str l), Scalar (Str s)) \<Rightarrow> Well_init l s dat std bg
          | _ \<Rightarrow> Inl TypeError) = Inr w"
    unfolding Well_from_series_def and_then_Inr_iff by blast
  from re_match_Inr[OF std] obtain p s where
    p: "sp = Some p" "smp = Scalar (Str s)" "std = matches_at_start p s" by blast
  from re_match_Inr[OF bg] p(2) obtain q where
    q: "bp = Some q" "bg = matches_at_start q s" by auto
  from fin p(2) obtain l where l: "loc = Scalar (Str l)" and "Well_init l s dat std bg = Inr w"
    by (auto split: pyval.splits cell.splits)
  from Well_init_fields[OF this(2)] dat loc smp p q l show ?thesis
    by simp
qed

lemmas Well_eval =
  Well_from_series_def statistics_of_def row_getattr_def row_getitem_def
  matches_at_start_def Well_init_def is_digit_def py_int_def digit_value_def
  standard_pattern_default_def background_pattern_default_def

text \<open>
  C5, as the claim has it: every well built from a row has its standard flag set exactly
  when the sample begins with \<^verbatim>\<open>Standard\<close> or \<^verbatim>\<open>standard\<close> and digits.  The patterns are
  arguments of \<^verbatim>\<open>Well.from_series\<close>: with the standard pattern \<^verbatim>\<open>"U"\<close> the well of the
  sample \<^verbatim>\<open>Unknown\<close> is flagged as a standard, and \<^verbatim>\<open>Unknown\<close> does not begin that way.
\<close>

theorem Well_from_series_custom_pattern:
  "Well_from_series [(''Location'', Str ''A1''), (''Sample'', Str ''Unknown''), (''X'', Num (5::int))]
     ''fluorescence intensity'' (Some (Chr CHR ''U'')) (Some background_pattern_default) =
     Inr \<lparr>location = Some 1, location_str = ''A1'', sample_id = ''Unknown'',
          well_data = [\<lparr>ws_datatype = ''fluorescence intensity'', ws_variable = ''X'',
                        ws_value = Scalar (Num 5)\<rparr>],
          standard = True, background = False\<rparr>
   \<and> \<not> matches_at_start standard_pattern_default ''Unknown''"
  by code_simp

text \<open>
  C5, amended.  With the default patterns, the standard flag of a well built from a row
  is set exactly when the sample is \<^verbatim>\<open>S\<close> or \<^verbatim>\<open>s\<close>, then \<^verbatim>\<open>tandard\<close>, then one or more
  digits, then anything; the background flag likewise with \<^verbatim>\<open>B\<close> or \<^verbatim>\<open>b\<close> and
  \<^verbatim>\<open>ackground\<close>.  With any patterns, each flag says whether its own pattern matches at
  the start of the sample of the row, whatever the other pattern; some row and patterns
  give a well with both flags set, and some row gives, with the default patterns, a well
  with neither.
\<close>

theorem Well_from_series_flags:
  "(\<forall>(row :: 'v row) dt w.
      Well_from_series row dt (Some standard_pattern_default) (Some background_pattern_default) = Inr w \<longrightarrow>
        (standard w \<longleftrightarrow>
           (\<exists>c ds rest. sample_id w = c # ''tandard'' @ ds @ rest
               \<and> (c = CHR ''S'' \<or> c = CHR ''s'') \<and> ds \<noteq> [] \<and> list_all is_digit ds))
      \<and> (background w \<longleftrightarrow>
           (\<exists>c ds rest. sample_id w = c # ''ackground'' @ ds @ rest
               \<and> (c = CHR ''B'' \<or> c = CHR ''b'') \<and> ds \<noteq> [] \<and> list_all is_digit ds)))
   \<and> (\<forall>(row :: 'v row) dt sp bp w.
      Well_from_series row dt sp bp = Inr w \<longrightarrow>
        (\<exists>p q. sp = Some p \<and> bp = Some q
           \<and> row_getattr row ''Sample'' = Inr (Scalar (Str (sample_id w)))
           \<and> standard w = matches_at_start p (sample_id w)
           \<and> background w = matches_at_start q (sample_id w)))
   \<and> (\<exists>(row :: 'v row) dt sp bp w.
        Well_from_series row dt (Some sp) (Some bp) = Inr w \<and> standard w \<and> background w)
   \<and> (\<exists>(row :: 'v row) dt w.
        Well_from_series row dt (Some standard_pattern_default) (Some background_pattern_default) = Inr w
        \<and> \<not> standard w \<and> \<not> background w)"
proof (intro conjI allI impI)
  fix row :: "'v row" and dt w
  assume "Well_from_series row dt (Some standard_pattern_default) (Some background_pattern_default) = Inr w"
  from Well_from_series_Inr[OF this]
  have "standard w = matches_at_start standard_pattern_default (sample_id w)"
    and "background w = matches_at_start background_pattern_default (sample_id w)"
    by simp_all
  then show "standard w \<longleftrightarrow>
           (\<exists>c ds rest. sample_id w = c # ''tandard'' @ ds @ rest
               \<and> (c = CHR ''S'' \<or> c = CHR ''s'') \<and> ds \<noteq> [] \<and> list_all is_digit ds)"
    and "background w \<longleftrightarrow>
           (\<exists>c ds rest. sample_id w = c # ''ackground'' @ ds @ rest
               \<and> (c = CHR ''B'' \<or> c = CHR ''b'') \<and> ds \<noteq> [] \<and> list_all is_digit ds)"
    unfolding standard_pattern_default_def background_pattern_default_def label_pattern
    by simp_all
next
  fix row :: "'v row" and dt sp bp w
  assume "Well_from_series row dt sp bp = Inr w"
  from Well_from_series_Inr[OF this]
  show "\<exists>p q. sp = Some p \<and> bp = Some q
           \<and> row_getattr row ''Sample'' = Inr (Scalar (Str (sample_id w)))
           \<and> standard w = matches_at_start p (sample_id w)
           \<and> background w = matches_at_start q (sample_id w)"
    by blast
next
  have "Well_from_series [(''Location'', Str ''A1''), (''Sample'', Str ''Blank'')] ''fi''
          (Some Dot) (Some (Chr CHR ''B'')) =
        Inr \<lparr>location = Some 1, location_str = ''A1'', sample_id = ''Blank'', well_data = [],
             standard = True, background = True\<rparr>"
    by (simp add: Well_eval)
  then show "\<exists>(row :: 'v row) dt sp bp w.
        Well_from_series row dt (Some sp) (Some bp) = Inr w \<and> standard w \<and> background w"
    by (metis Well.select_convs(5,6))
next
  have "Well_from_series [(''Location'', Str ''A1''), (''Sample'', Str ''Blank'')] ''fi''
          (Some standard_pattern_default) (Some background_pattern_default) =
        Inr \<lparr>location = Some 1, location_str = ''A1'', sample_id = ''Blank'', well_data = [],
             standard = False, background = False\<rparr>"
    by (simp add: Well_eval)
  then show "\<exists>(row :: 'v row) dt w.
        Well_from_series row dt (Some standard_pattern_default) (Some background_pattern_default) = Inr w
        \<and> \<not> standard w \<and> \<not> background w"
    by (metis Well.select_convs(5,6))
qed

theorem Well_from_series_flags_witness:
  "\<exists>w. Well_from_series
          [(''Location'', Str ''A1''), (''Sample'', Str ''Standard1''), (''X'', Num (10::int)),
           (''Y'', Num 20)]
          ''fluorescence intensity''
          (Some standard_pattern_default) (Some background_pattern_default) = Inr w
       \<and> standard w \<and> \<not> background w
       \<and> (\<exists>c ds rest. sample_id w = c # ''tandard'' @ ds @ rest
               \<and> (c = CHR ''S'' \<or> c = CHR ''s'') \<and> ds \<noteq> [] \<and> list_all is_digit ds)"
proof -
  let ?w = "\<lparr>location = Some 1, location_str = ''A1'', sample_id = ''Standard1'',
             well_data = [\<lparr>ws_datatype = ''fluorescence intensity'', ws_variable = ''X'',
                            ws_value = Scalar (Num (10::int))\<rparr>,
                          \<lparr>ws_datatype = ''fluorescence intensity'', ws_variable = ''Y'',
                            ws_value = Scalar (Num 20)\<rparr>],
             standard = True, background = False\<rparr>"
  have ev: "Well_from_series
          [(''Location'', Str ''A1''), (''Sample'', Str ''Standard1''), (''X'', Num (10::int)),
           (''Y'', Num 20)]
          ''fluorescence intensity''
          (Some standard_pattern_default) (Some background_pattern_default) = Inr ?w"
    by code_simp
  from Well_from_series_flags[THEN conjunct1, rule_format, OF ev]
  have "\<exists>c ds rest. sample_id ?w = c # ''tandard'' @ ds @ rest
               \<and> (c = CHR ''S'' \<or> c = CHR ''s'') \<and> ds \<noteq> [] \<and> list_all is_digit ds"
    by simp
  with ev show ?thesis
    by (intro exI[of _ ?w]) simp
qed

subsection \<open>The wells of a plate\<close>

lemma collect_Inr_iff:
  "collect f xs = Inr ys \<longleftrightarrow> list_all2 (\<lambda>x y. f x = Inr y) xs ys"
proof (induction xs arbitrary: ys)
  case Nil
  then show ?case by auto
next
  case (Cons x xs)
  show ?case
    by (cases ys) (auto simp: and_then_Inr_iff Cons.IH)
qed

lemma collect_succeeds:
  assumes "\<forall>x\<in>set xs. \<exists>y. f x = Inr y"
  shows "\<exists>ys. collect f xs = Inr ys"
  using assms
proof (induction xs)
  case Nil
  then show ?case by simp
next
  case (Cons x xs)
  then obtain y ys where "f x = Inr y" "collect f xs = Inr ys" by auto
  then show ?case by simp
qed

lemma cells_under_label:
  "length [v. (k, v) \<leftarrow> row, k = label] = length (filter (\<lambda>k. k = label) (map fst row))"
  by (induction row) auto

lemma row_getitem_in_index:
  assumes "label \<in> fst ` set row"
  shows "\<exists>x. row_getitem row label = Inr x"
proof -
  from assms have "filter (\<lambda>k. k = label) (map fst row) \<noteq> []"
    by (auto simp: filter_empty_conv)
  then have "[v. (k, v) \<leftarrow> row, k = label] \<noteq> []"
    using cells_under_label[of label row] by (metis length_0_conv)
  then show ?thesis
    by (auto simp: row_getitem_def split: list.splits)
qed

lemma row_getattr_Scalar:
  assumes "row_getattr row label = Inr (Scalar v)"
  shows "length (filter (\<lambda>k. k = label) (map fst row)) = 1"
proof -
  from assms have "length [v. (k, v) \<leftarrow> row, k = label] = 1"
    by (auto simp: row_getattr_def split: list.splits)
  then show ?thesis
    using cells_under_label[of label row] by simp
qed

lemma statistics_of_succeeds: "\<exists>dat. statistics_of row dt = Inr dat"
proof -
  have "\<exists>y. and_then (row_getitem row var)
              (\<lambda>x. Inr \<lparr>ws_datatype = dt, ws_variable = var, ws_value = x\<rparr>) = Inr y"
    if "var \<in> fst ` set row" for var
    using row_getitem_in_index[OF that] by auto
  then show ?thesis
    unfolding statistics_of_def Let_def
    by (intro collect_succeeds) (auto simp: comprehension_filter)
qed

lemma statistics_of_Inr:
  assumes "statistics_of row dt = Inr dat"
  shows "map ws_variable dat = [c \<leftarrow> map fst row. c \<notin> set [''Location'', ''Sample'']]"
    and "\<forall>ws\<in>set dat. ws_datatype ws = dt \<and> row_getitem row (ws_variable ws) = Inr (ws_value ws)"
proof -
  let ?vars = "[c \<leftarrow> map fst row. c \<notin> set [''Location'', ''Sample'']]"
  from assms have all2: "list_all2 (\<lambda>var ws. and_then (row_getitem row var)
              (\<lambda>x. Inr \<lparr>ws_datatype = dt, ws_variable = var, ws_value = x\<rparr>) = Inr ws) ?vars dat"
    unfolding statistics_of_def Let_def comprehension_filter collect_Inr_iff .
  then have "list_all2 (\<lambda>var ws. ws_variable ws = var \<and> ws_datatype ws = dt
                 \<and> row_getitem row (ws_variable ws) = Inr (ws_value ws)) ?vars dat"
    by (rule list_all2_mono) (auto simp: and_then_Inr_iff)
  then show "map ws_variable dat = ?vars"
    and "\<forall>ws\<in>set dat. ws_datatype ws = dt \<and> row_getitem row (ws_variable ws) = Inr (ws_value ws)"
    by (auto simp: list_all2_conv_all_nth list_eq_iff_nth_eq in_set_conv_nth)
qed

lemma other_columns_count:
  assumes "length (filter (\<lambda>k. k = a) cols) = 1" and "length (filter (\<lambda>k. k = b) cols) = 1"
    and "a \<noteq> b"
  shows "length [c \<leftarrow> cols. c \<notin> set [a, b]] + 2 = length cols"
proof -
  have "length [c \<leftarrow> cols. c \<notin> set [a, b]] + length (filter (\<lambda>k. k = a) cols)
          + length (filter (\<lambda>k. k = b) cols) = length cols"
    using \<open>a \<noteq> b\<close> by (induction cols) auto
  with assms(1,2) show ?thesis by simp
qed

lemma Well_from_series_succeeds:
  assumes "row_getattr row ''Location'' = Inr (Scalar (Str l))" and "list_ex is_digit l"
    and "row_getattr row ''Sample'' = Inr (Scalar (Str s))"
  shows "\<exists>w. Well_from_series row dt (Some sp) (Some bp) = Inr w"
proof -
  obtain dat where "statistics_of row dt = Inr dat"
    using statistics_of_succeeds by blast
  with assms(1,3) show ?thesis
    by (simp add: Well_from_series_def Well_init_with_digit[OF assms(2)])
qed


lemma iterrows_index:
  assumes "rectangular df" and "row \<in> set (iterrows df)"
  shows "map fst row = columns df"
proof -
  from assms(2) obtain r where "r \<in> set (rows df)" and row: "row = zip (columns df) r"
    by (auto simp: iterrows_def)
  with assms(1) have "length (columns df) = length r"
    by (simp add: rectangular_def list_all_iff)
  then show ?thesis
    unfolding row by (rule map_fst_zip)
qed

text \<open>
  C6, as the claim has it: every table with the columns \<^verbatim>\<open>Location\<close> and \<^verbatim>\<open>Sample\<close> gives
  a plate with one well for each row.  A row whose location is the number 1 gives no
  plate: \<^verbatim>\<open>re.search\<close> in \<^verbatim>\<open>Well.__init__\<close> raises \<^verbatim>\<open>TypeError\<close> on a location that is
  not a string.  A row whose location is the string \<^verbatim>\<open>NoDigits\<close> gives no plate either:
  the constructor raises \<^verbatim>\<open>AttributeError\<close>, as in C1.
\<close>

theorem Plate_from_dataframe_no_plate:
  "Plate_from_dataframe
     \<lparr>columns = [''Location'', ''Sample'', ''X''], rows = [[Num 1, Str ''Unknown'', Num (5::int)]]\<rparr>
     None None (None :: unit option)
     (Some standard_pattern_default) (Some background_pattern_default) = Inl TypeError
   \<and> Plate_from_dataframe
     \<lparr>columns = [''Location'', ''Sample'', ''X''],
      rows = [[Str ''NoDigits'', Str ''Unknown'', Num (5::int)]]\<rparr>
     None None (None :: unit option)
     (Some standard_pattern_default) (Some background_pattern_default) = Inl AttributeError"
  by code_simp

text \<open>
  C6, amended.  Take a table whose rows all have one cell for each column, and in each
  row of which the label \<^verbatim>\<open>Location\<close> selects a single cell, a string with a digit, and
  the label \<^verbatim>\<open>Sample\<close> selects a single cell, a string.  Building a plate from it, with
  any two patterns, succeeds; the plate has as many wells as the table has rows; the
  well at position \<open>i\<close> has the location string and the sample of row \<open>i\<close>; it has two
  statistics fewer than the table has columns, their variables being the other column
  labels in the order of the columns; and each statistic carries the datatype
  \<^verbatim>\<open>fluorescence intensity\<close> and the value of the row under its variable.
\<close>

theorem Plate_from_dataframe_wells:
  assumes "rectangular df"
    and "\<forall>row\<in>set (iterrows df). \<exists>l s.
           row_getattr row ''Location'' = Inr (Scalar (Str l)) \<and> list_ex is_digit l
           \<and> row_getattr row ''Sample'' = Inr (Scalar (Str s))"
  shows "\<exists>p. Plate_from_dataframe df rd bid m (Some sp) (Some bp) = Inr p
           \<and> length (plate_data p) = length (rows df)
           \<and> (\<forall>i<length (rows df).
                 row_getattr (iterrows df ! i) ''Location'' =
                   Inr (Scalar (Str (location_str (plate_data p ! i))))
               \<and> row_getattr (iterrows df ! i) ''Sample'' =
                   Inr (Scalar (Str (sample_id (plate_data p ! i))))
               \<and> length (well_data (plate_data p ! i)) + 2 = length (columns df)
               \<and> map ws_variable (well_data (plate_data p ! i)) =
                   [c \<leftarrow> columns df. c \<notin> set [''Location'', ''Sample'']]
               \<and> (\<forall>ws\<in>set (well_data (plate_data p ! i)).
                     ws_datatype ws = ''fluorescence intensity''
                   \<and> row_getitem (iterrows df ! i) (ws_variable ws) = Inr (ws_value ws)))"
proof -
  let ?build = "\<lambda>row. Well_from_series row ''fluorescence intensity'' (Some sp) (Some bp)"
  have "\<forall>row\<in>set (iterrows df). \<exists>w. ?build row = Inr w"
    using assms(2) Well_from_series_succeeds by blast
  from collect_succeeds[OF this]
  obtain wells where wells: "collect ?build (iterrows df) = Inr wells" ..
  then have all2: "list_all2 (\<lambda>row w. ?build row = Inr w) (iterrows df) wells"
    by (simp add: collect_Inr_iff)
  have len: "length wells = length (rows df)"
    using list_all2_lengthD[OF all2] by (simp add: iterrows_def)
  have each: "row_getattr (iterrows df ! i) ''Location'' = Inr (Scalar (Str (location_str (wells ! i))))
               \<and> row_getattr (iterrows df ! i) ''Sample'' = Inr (Scalar (Str (sample_id (wells ! i))))
               \<and> length (well_data (wells ! i)) + 2 = length (columns df)
               \<and> map ws_variable (well_data (wells ! i)) =
                   [c \<leftarrow> columns df. c \<notin> set [''Location'', ''Sample'']]
               \<and> (\<forall>ws\<in>set (well_data (wells ! i)).
                     ws_datatype ws = ''fluorescence intensity''
                   \<and> row_getitem (iterrows df ! i) (ws_variable ws) = Inr (ws_value ws))"
    if i: "i < length (rows df)" for i
  proof -
    let ?row = "iterrows df ! i" and ?w = "wells ! i"
    from i have mem: "?row \<in> set (iterrows df)"
      by (simp add: iterrows_def)
    from all2 i len have "?build ?row = Inr ?w"
      by (simp add: list_all2_conv_all_nth)
    from Well_from_series_Inr[OF this] have
      loc: "row_getattr ?row ''Location'' = Inr (Scalar (Str (location_str ?w)))" and
      smp: "row_getattr ?row ''Sample'' = Inr (Scalar (Str (sample_id ?w)))" and
      dat: "statistics_of ?row ''fluorescence intensity'' = Inr (well_data ?w)"
      by blast+
    note idx = iterrows_index[OF assms(1) mem]
    have vars: "map ws_variable (well_data ?w) =
                  [c \<leftarrow> columns df. c \<notin> set [''Location'', ''Sample'']]"
      using statistics_of_Inr(1)[OF dat] by (simp only: idx)
    have c1: "length (filter (\<lambda>k. k = ''Location'') (columns df)) = 1"
      using row_getattr_Scalar[OF loc] by (simp only: idx)
    have c2: "length (filter (\<lambda>k. k = ''Sample'') (columns df)) = 1"
      using row_getattr_Scalar[OF smp] by (simp only: idx)
    have "length [c \<leftarrow> columns df. c \<notin> set [''Location'', ''Sample'']] + 2 = length (columns df)"
      by (rule other_columns_count[OF c1 c2]) simp
    then have "length (well_data ?w) + 2 = length (columns df)"
      by (simp only: vars[symmetric] length_map)
    with loc smp vars statistics_of_Inr(2)[OF dat] show ?thesis
      by (intro conjI) assumption+
  qed
  let ?p = "Plate_init wells None rd bid m"
  have built: "Plate_from_dataframe df rd bid m (Some sp) (Some bp) = Inr ?p"
    by (simp add: Plate_from_dataframe_def plate_from_dataframe_def wells)
  have dat: "plate_data ?p = wells"
    by (simp add: Plate_init_def)
  show ?thesis
    unfolding built
    by (rule exI[of _ ?p], unfold dat, intro conjI allI impI refl len each)
qed


theorem Plate_from_dataframe_wells_witness:
  "rectangular scenario_table
   \<and> (\<exists>p. Plate_from_dataframe scenario_table None None (None :: unit option)
             (Some standard_pattern_default) (Some background_pattern_default) = Inr p
          \<and> length (plate_data p) = 2
          \<and> map location_str (plate_data p) = [''A1'', ''B2'']
          \<and> map sample_id (plate_data p) = [''Standard1'', ''Unknown'']
          \<and> map (map ws_variable \<circ> well_data) (plate_data p) = [[''X'', ''Y''], [''X'', ''Y'']]
          \<and> length (well_data (plate_data p ! 0)) + 2 = 4
          \<and> length (well_data (plate_data p ! 1)) + 2 = 4)"
proof -
  have rect: "rectangular scenario_table"
    by (simp add: rectangular_def scenario_table_def)
  have rows: "iterrows scenario_table =
      [[(''Location'', Str ''A1''), (''Sample'', Str ''Standard1''), (''X'', Num 10), (''Y'', Num 20)],
       [(''Location'', Str ''B2''), (''Sample'', Str ''Unknown''), (''X'', Num 5), (''Y'', Num 15)]]"
    by (simp add: iterrows_def scenario_table_def)
  have cells: "\<forall>row\<in>set (iterrows scenario_table). \<exists>l s.
           row_getattr row ''Location'' = Inr (Scalar (Str l)) \<and> list_ex is_digit l
           \<and> row_getattr row ''Sample'' = Inr (Scalar (Str s))"
    unfolding rows by (simp add: row_getattr_def is_digit_def)
  from Plate_from_dataframe_wells[OF rect cells, of None None None
        standard_pattern_default background_pattern_default]
  obtain p :: "(int, unit) Plate" where
    p: "Plate_from_dataframe scenario_table None None None
          (Some standard_pattern_default) (Some background_pattern_default) = Inr p"
    and len: "length (plate_data p) = length (rows scenario_table)"
    and each: "\<And>i. i < length (rows scenario_table) \<Longrightarrow>
        row_getattr (iterrows scenario_table ! i) ''Location'' =
                   Inr (Scalar (Str (location_str (plate_data p ! i))))
               \<and> row_getattr (iterrows scenario_table ! i) ''Sample'' =
                   Inr (Scalar (Str (sample_id (plate_data p ! i))))
               \<and> length (well_data (plate_data p ! i)) + 2 = length (columns scenario_table)
               \<and> map ws_variable (well_data (plate_data p ! i)) =
                   [c \<leftarrow> columns scenario_table. c \<notin> set [''Location'', ''Sample'']]"
    by blast
  have n: "length (rows scenario_table) = 2" "length (columns scenario_table) = 4"
    "[c \<leftarrow> columns scenario_table. c \<notin> set [''Location'', ''Sample'']] = [''X'', ''Y'']"
    by (simp_all add: scenario_table_def)
  from len n(1) obtain w0 w1 where ws: "plate_data p = [w0, w1]"
    by (metis (no_types, opaque_lifting) One_nat_def Suc_1 length_0_conv length_Suc_conv)
  from each[of 0] each[of 1] have
    "location_str w0 = ''A1''" "sample_id w0 = ''Standard1''"
    "location_str w1 = ''B2''" "sample_id w1 = ''Unknown''"
    "map ws_variable (well_data w0) = [''X'', ''Y'']"
    "map ws_variable (well_data w1) = [''X'', ''Y'']"
    "length (well_data w0) + 2 = 4" "length (well_data w1) + 2 = 4"
    unfolding n ws rows by (simp_all add: row_getattr_def)
  with rect p ws show ?thesis
    by (intro conjI exI[of _ p]) simp_all
qed

end
